theory Spec2Isabelle
  imports Main "HOL-Library.Word"
begin

section \<open>The Cassandra logs exporter (exporter\_logs.go)\<close>

text \<open>
  The exporter talks to three collaborators that are not part of the file: the gocql
  driver (cluster configuration, sessions, statements), the zap logger and the clock.
  They are modelled as one explicit \<open>world\<close> that every effectful function takes and
  returns. The driver's answers are not computed: the world carries an arbitrary oracle
  \<open>outcome\<close> that decides, call by call, whether opening a session or executing a
  statement fails, so that every theorem below holds for every behaviour of the cluster.
  The context argument of the Go functions only travels to the driver, whose answers
  are arbitrary here, and is left out.
\<close>

subsection \<open>Go values: errors, pdata values and attribute maps\<close>

datatype error = Error string

type_synonym byte = "8 word"

text \<open>
  A \<open>pcommon.Value\<close>. A double is kept as its 64 bits. A \<open>pcommon.Map\<close> is a slice
  of key/value pairs in insertion order; \<open>Get\<close> returns the first pair with the key.
\<close>

datatype pvalue =
    ValueEmpty
  | ValueStr string
  | ValueInt "64 word"
  | ValueDouble "64 word"
  | ValueBool bool
  | ValueMap "(string \<times> pvalue) list"
  | ValueSlice "pvalue list"
  | ValueBytes "byte list"

type_synonym pmap = "(string \<times> pvalue) list"

definition Map_Get :: "pmap \<Rightarrow> string \<Rightarrow> pvalue option" where
  "Map_Get m key = map_of m key"

text \<open>\<open>Value.Str\<close> is the string of a string value and the empty string otherwise.\<close>

fun Value_Str :: "pvalue \<Rightarrow> string" where
  "Value_Str (ValueStr s) = s"
| "Value_Str _ = []"

definition AttributeServiceName :: string where
  "AttributeServiceName = ''service.name''"

subsection \<open>The log batch: resources, scopes, records\<close>

record LogRecord =
  Timestamp :: "64 word"
  TraceID :: "byte list"
  SpanID :: "byte list"
  Flags :: "32 word"
  SeverityText :: string
  SeverityNumber :: "32 word"
  Body :: pvalue
  Attributes :: pmap

record ScopeLogs =
  LogRecords :: "LogRecord list"

record ResourceLogs =
  Resource :: pmap
  ScopeLogs :: "ScopeLogs list"

type_synonym Logs = "ResourceLogs list"

text \<open>\<open>Logs.LogRecordCount\<close>: the number of records over all resources and scopes.\<close>

definition LogRecordCount :: "Logs \<Rightarrow> nat" where
  "LogRecordCount ld =
     sum_list (map (\<lambda>rl. sum_list (map (\<lambda>sl. length (LogRecords sl)) (ScopeLogs rl))) ld)"

subsection \<open>Configuration and statement texts\<close>

record CompressionConfig =
  Algorithm :: string

record Config =
  DSN :: string
  Keyspace :: string
  LogsTable :: string
  Compression :: CompressionConfig

text \<open>
  The statement templates are constants of the package declared outside this file.
  A statement text is kept symbolic: the template's name with the arguments that
  \<open>fmt.Sprintf\<close> fills in.
\<close>

datatype template = createDatabaseSQL | createLogTableSQL | insertLogTableSQL

datatype sql = Sprintf template "string list"

text \<open>
  Modelled from the spec: \<open>parseCreateDatabaseSQL\<close> is declared outside this file; the
  spec describes its result as a CREATE-KEYSPACE-IF-ABSENT statement parameterized by
  the keyspace name.
\<close>

definition parseCreateDatabaseSQL :: "Config \<Rightarrow> sql" where
  "parseCreateDatabaseSQL cfg = Sprintf createDatabaseSQL [Keyspace cfg]"

definition parseCreateLogTableSQL :: "Config \<Rightarrow> sql" where
  "parseCreateLogTableSQL cfg =
     Sprintf createLogTableSQL [Keyspace cfg, LogsTable cfg, Algorithm (Compression cfg)]"

subsection \<open>The world: driver, logger, clock\<close>

datatype Consistency =
    gocql_Any | gocql_One | gocql_Two | gocql_Three | gocql_Quorum
  | gocql_All | gocql_LocalQuorum | gocql_EachQuorum | gocql_LocalOne

record ClusterConfig =
  cluster_Hosts :: "string list"
  cluster_Keyspace :: string
  cluster_Consistency :: Consistency

text \<open>\<open>gocql.NewCluster\<close>: the driver's defaults are no keyspace and quorum consistency.\<close>

definition NewCluster :: "string \<Rightarrow> ClusterConfig" where
  "NewCluster hosts =
     \<lparr>cluster_Hosts = [hosts], cluster_Keyspace = [], cluster_Consistency = gocql_Quorum\<rparr>"

text \<open>A session keeps the configuration it was created from; later assignments to the
  cluster value do not reach it.\<close>

record session =
  session_cfg :: ClusterConfig
  session_closed :: bool

datatype 'm arg =
    ArgTime "64 word"
  | ArgString string
  | ArgUint32 "32 word"
  | ArgInt32 "32 word"
  | ArgMap 'm

datatype 'm event =
    CreateSession_ev ClusterConfig "error option"
  | Exec_ev nat sql "'m arg list" "error option"
  | Close_ev nat

datatype level = DebugLevel | ErrorLevel

datatype zap_field = zap_Error error | zap_Int string int | zap_String string string

type_synonym zap_Logger = string

record log_entry =
  entry_logger :: zap_Logger
  entry_level :: level
  entry_msg :: string
  entry_fields :: "zap_field list"

text \<open>
  \<open>sessions\<close>: every session opened so far, a session's handle being its index;
  \<open>events\<close>: every driver call so far, with its result;
  \<open>outcome\<close>: the oracle, read at the number of driver calls made so far;
  \<open>logs\<close>: every logger call so far;
  \<open>clock\<close>: the instants (in nanoseconds) that successive readings of the clock return.
\<close>

record 'm world =
  sessions :: "session list"
  events :: "'m event list"
  outcome :: "nat \<Rightarrow> error option"
  logs :: "log_entry list"
  clock :: "nat \<Rightarrow> int"
  clock_reads :: nat

definition CreateSession :: "ClusterConfig \<Rightarrow> 'm world \<Rightarrow> (error + nat) \<times> 'm world" where
  "CreateSession cluster w =
     (case outcome w (length (events w)) of
        Some err \<Rightarrow>
          (Inl err, w\<lparr>events := events w @ [CreateSession_ev cluster (Some err)]\<rparr>)
      | None \<Rightarrow>
          (Inr (length (sessions w)),
           w\<lparr>sessions := sessions w @ [\<lparr>session_cfg = cluster, session_closed = False\<rparr>],
             events := events w @ [CreateSession_ev cluster None]\<rparr>))"

definition Exec :: "nat \<Rightarrow> sql \<Rightarrow> 'm arg list \<Rightarrow> 'm world \<Rightarrow> error option \<times> 'm world" where
  "Exec s stmt values w =
     (let r = outcome w (length (events w))
      in (r, w\<lparr>events := events w @ [Exec_ev s stmt values r]\<rparr>))"

definition Close :: "nat \<Rightarrow> 'm world \<Rightarrow> 'm world" where
  "Close s w =
     w\<lparr>sessions :=
         (if s < length (sessions w)
          then (sessions w)[s := (sessions w ! s)\<lparr>session_closed := True\<rparr>]
          else sessions w),
       events := events w @ [Close_ev s]\<rparr>"

definition Logger_Error :: "zap_Logger \<Rightarrow> string \<Rightarrow> zap_field list \<Rightarrow> 'm world \<Rightarrow> 'm world" where
  "Logger_Error l msg fs w =
     w\<lparr>logs := logs w @
        [\<lparr>entry_logger = l, entry_level = ErrorLevel, entry_msg = msg, entry_fields = fs\<rparr>]\<rparr>"

definition Logger_Debug :: "zap_Logger \<Rightarrow> string \<Rightarrow> zap_field list \<Rightarrow> 'm world \<Rightarrow> 'm world" where
  "Logger_Debug l msg fs w =
     w\<lparr>logs := logs w @
        [\<lparr>entry_logger = l, entry_level = DebugLevel, entry_msg = msg, entry_fields = fs\<rparr>]\<rparr>"

definition time_Now :: "'m world \<Rightarrow> int \<times> 'm world" where
  "time_Now w = (clock w (clock_reads w), w\<lparr>clock_reads := clock_reads w + 1\<rparr>)"

definition time_Since :: "int \<Rightarrow> 'm world \<Rightarrow> int \<times> 'm world" where
  "time_Since t w = (let (now, w') = time_Now w in (now - t, w'))"

subsection \<open>Functions of other packages that the exporter calls\<close>

text \<open>
  \<open>attributesToMap\<close> (declared outside this file), \<open>json.Marshal\<close> and
  \<open>Duration.String\<close> are parameters: every theorem holds for each of their behaviours.
  The first two are taken after \<open>AsRaw\<close>, that is on the pdata value itself.
  \<open>json.Marshal\<close> returns either an error (and then no bytes) or the bytes.
\<close>

record 'm extern =
  attributesToMap :: "pmap \<Rightarrow> 'm"
  json_Marshal :: "pvalue \<Rightarrow> error + string"
  Duration_String :: "int \<Rightarrow> string"

subsection \<open>The exporter\<close>

record logsExporter =
  client :: "nat option"
  logger :: zap_Logger
  cfg :: Config

text \<open>
  \<open>newLogsExporter\<close> creates the session first and assigns the keyspace and the
  consistency to the cluster value afterwards.
\<close>

definition newLogsExporter ::
  "zap_Logger \<Rightarrow> Config \<Rightarrow> 'm world \<Rightarrow> (error + logsExporter) \<times> 'm world" where
  "newLogsExporter lg c w =
     (let cluster = NewCluster (DSN c);
          (r, w1) = CreateSession cluster w;
          cluster = cluster\<lparr>cluster_Keyspace := Keyspace c\<rparr>;
          cluster = cluster\<lparr>cluster_Consistency := gocql_Quorum\<rparr>
      in case r of
           Inl err \<Rightarrow> (Inl err, w1)
         | Inr session \<Rightarrow> (Inr \<lparr>client = Some session, logger = lg, cfg = c\<rparr>, w1))"

text \<open>
  \<open>initializeLogKernel\<close>: the deferred \<open>Close\<close> is registered after both statements,
  so it runs on the last return only.
\<close>

definition initializeLogKernel :: "Config \<Rightarrow> 'm world \<Rightarrow> error option \<times> 'm world" where
  "initializeLogKernel c w =
     (let cluster = NewCluster (DSN c);
          cluster = cluster\<lparr>cluster_Consistency := gocql_Quorum\<rparr>;
          (r, w1) = CreateSession cluster w
      in case r of
           Inl err \<Rightarrow> (Some err, w1)
         | Inr session \<Rightarrow>
             (let (createDatabaseError, w2) = Exec session (parseCreateDatabaseSQL c) [] w1
              in case createDatabaseError of
                   Some err \<Rightarrow> (Some err, w2)
                 | None \<Rightarrow>
                     (let (createLogTableError, w3) =
                            Exec session (parseCreateLogTableSQL c) [] w2
                      in case createLogTableError of
                           Some err \<Rightarrow> (Some err, w3)
                         | None \<Rightarrow> (None, Close session w3))))"

definition Start :: "logsExporter \<Rightarrow> 'm world \<Rightarrow> error option \<times> 'm world" where
  "Start e w = (let (initializeErr, w') = initializeLogKernel (cfg e) w in (initializeErr, w'))"

definition Shutdown :: "logsExporter \<Rightarrow> 'm world \<Rightarrow> error option \<times> 'm world" where
  "Shutdown e w =
     (case client e of
        Some session \<Rightarrow> (None, Close session w)
      | None \<Rightarrow> (None, w))"

text \<open>
  \<open>TraceIDToHexOrEmptyString\<close> and \<open>SpanIDToHexOrEmptyString\<close> belong to the package
  \<open>internal/coreinternal/traceutil\<close>, which is part of the repository but not of this
  file.
\<close>

definition hex_digit :: "nat \<Rightarrow> char" where
  "hex_digit n = ''0123456789abcdef'' ! n"

fun hex_EncodeToString :: "byte list \<Rightarrow> string" where
  "hex_EncodeToString [] = []"
| "hex_EncodeToString (b # bs) =
     hex_digit (unat b div 16) # hex_digit (unat b mod 16) # hex_EncodeToString bs"

definition IsEmpty :: "byte list \<Rightarrow> bool" where
  "IsEmpty tid = list_all (\<lambda>b. b = 0) tid"

text \<open>
  Modelled from the spec: \<open>TraceIDToHexOrEmptyString\<close> is not in this file; the spec
  says that a zero-length (all-zero) trace id renders to the empty string and any other
  id of N bytes to its lowercase hex string of length 2N.
\<close>

definition TraceIDToHexOrEmptyString :: "byte list \<Rightarrow> string" where
  "TraceIDToHexOrEmptyString tid = (if IsEmpty tid then [] else hex_EncodeToString tid)"

text \<open>
  Modelled from the spec: \<open>SpanIDToHexOrEmptyString\<close> is not in this file; the spec
  gives span ids the same rendering as trace ids.
\<close>

definition SpanIDToHexOrEmptyString :: "byte list \<Rightarrow> string" where
  "SpanIDToHexOrEmptyString tid = (if IsEmpty tid then [] else hex_EncodeToString tid)"

text \<open>
  \<open>pushLogsData\<close>. The three counting loops walk the slices from index 0 to their
  length and become recursions over the lists: \<open>pushLogsData_records\<close> is the loop
  over \<open>k\<close>, \<open>pushLogsData_scopes\<close> the loop over \<open>j\<close>, \<open>pushLogsData_resources\<close>
  the loop over \<open>i\<close>, which carries the variable \<open>serviceName\<close> declared before it.
  Calling \<open>Query\<close> on a nil session dereferences a nil pointer: the loops return
  \<open>None\<close> for that panic.
\<close>

fun pushLogsData_records ::
  "'m extern \<Rightarrow> logsExporter \<Rightarrow> string \<Rightarrow> 'm \<Rightarrow> LogRecord list \<Rightarrow> 'm world \<Rightarrow> 'm world option" where
  "pushLogsData_records x e serviceName resAttr [] w = Some w"
| "pushLogsData_records x e serviceName resAttr (r # rs) w =
     (let logAttr = attributesToMap x (Attributes r);
          bodyByte = (case json_Marshal x (Body r) of Inl _ \<Rightarrow> [] | Inr b \<Rightarrow> b)
      in case client e of
           None \<Rightarrow> None
         | Some session \<Rightarrow>
             (let (insertLogError, w1) =
                    Exec session (Sprintf insertLogTableSQL [Keyspace (cfg e), LogsTable (cfg e)])
                      [ArgTime (Timestamp r),
                       ArgString (TraceIDToHexOrEmptyString (TraceID r)),
                       ArgString (SpanIDToHexOrEmptyString (SpanID r)),
                       ArgUint32 (Flags r),
                       ArgString (SeverityText r),
                       ArgInt32 (SeverityNumber r),
                       ArgString serviceName,
                       ArgString bodyByte,
                       ArgMap resAttr,
                       ArgMap logAttr] w;
                  w2 = (case insertLogError of
                          Some err \<Rightarrow> Logger_Error (logger e) ''insert log error'' [zap_Error err] w1
                        | None \<Rightarrow> w1)
              in pushLogsData_records x e serviceName resAttr rs w2))"

fun pushLogsData_scopes ::
  "'m extern \<Rightarrow> logsExporter \<Rightarrow> string \<Rightarrow> 'm \<Rightarrow> ScopeLogs list \<Rightarrow> 'm world \<Rightarrow> 'm world option" where
  "pushLogsData_scopes x e serviceName resAttr [] w = Some w"
| "pushLogsData_scopes x e serviceName resAttr (sl # sls) w =
     (case pushLogsData_records x e serviceName resAttr (LogRecords sl) w of
        None \<Rightarrow> None
      | Some w1 \<Rightarrow> pushLogsData_scopes x e serviceName resAttr sls w1)"

fun pushLogsData_resources ::
  "'m extern \<Rightarrow> logsExporter \<Rightarrow> string \<Rightarrow> Logs \<Rightarrow> 'm world \<Rightarrow> 'm world option" where
  "pushLogsData_resources x e serviceName [] w = Some w"
| "pushLogsData_resources x e serviceName (rl # rest) w =
     (let res = Resource rl;
          resAttr = attributesToMap x res;
          serviceName = (case Map_Get res AttributeServiceName of
                           Some v \<Rightarrow> Value_Str v
                         | None \<Rightarrow> serviceName)
      in case pushLogsData_scopes x e serviceName resAttr (ScopeLogs rl) w of
           None \<Rightarrow> None
         | Some w1 \<Rightarrow> pushLogsData_resources x e serviceName rest w1)"

text \<open>The result is \<open>None\<close> for a panic, else the returned error with the new world.\<close>

definition pushLogsData ::
  "'m extern \<Rightarrow> logsExporter \<Rightarrow> Logs \<Rightarrow> 'm world \<Rightarrow> (error option \<times> 'm world) option" where
  "pushLogsData x e ld w =
     (let (start, w0) = time_Now w
      in case pushLogsData_resources x e [] ld w0 of
           None \<Rightarrow> None
         | Some w1 \<Rightarrow>
             (let (duration, w2) = time_Since start w1;
                  w3 = Logger_Debug (logger e) ''insert logs''
                         [zap_Int ''records'' (int (LogRecordCount ld)),
                          zap_String ''cost'' (Duration_String x duration)] w2
              in Some (None, w3)))"

section \<open>Observing a run\<close>

subsection \<open>Driver calls and log entries of a run\<close>

text \<open>
  \<open>new_events w w'\<close> and \<open>new_logs w w'\<close> are the driver calls and the logger calls
  made between the worlds \<open>w\<close> and \<open>w'\<close>. A Row is the value list of an insert
  statement; \<open>insert_rows\<close> lists the Rows of the insert statements among the driver
  calls and \<open>insert_results\<close> their results, in the order of the calls.
\<close>

definition new_events :: "'m world \<Rightarrow> 'm world \<Rightarrow> 'm event list" where
  "new_events w w' = drop (length (events w)) (events w')"

definition new_logs :: "'m world \<Rightarrow> 'm world \<Rightarrow> log_entry list" where
  "new_logs w w' = drop (length (logs w)) (logs w')"

fun insert_rows :: "'m event list \<Rightarrow> 'm arg list list" where
  "insert_rows [] = []"
| "insert_rows (Exec_ev s (Sprintf insertLogTableSQL as) vs r # evs) = vs # insert_rows evs"
| "insert_rows (ev # evs) = insert_rows evs"

fun insert_results :: "'m event list \<Rightarrow> error option list" where
  "insert_results [] = []"
| "insert_results (Exec_ev s (Sprintf insertLogTableSQL as) vs r # evs) = r # insert_results evs"
| "insert_results (ev # evs) = insert_results evs"

fun open_results :: "'m event list \<Rightarrow> error option list" where
  "open_results [] = []"
| "open_results (CreateSession_ev c r # evs) = r # open_results evs"
| "open_results (ev # evs) = open_results evs"

fun is_exec :: "sql \<Rightarrow> 'm event \<Rightarrow> bool" where
  "is_exec stmt (Exec_ev s stmt' vs r) = (stmt' = stmt)"
| "is_exec stmt ev = False"

fun exec_results :: "sql \<Rightarrow> 'm event list \<Rightarrow> error option list" where
  "exec_results stmt [] = []"
| "exec_results stmt (Exec_ev s stmt' vs r # evs) =
     (if stmt' = stmt then r # exec_results stmt evs else exec_results stmt evs)"
| "exec_results stmt (ev # evs) = exec_results stmt evs"

fun closed_handles :: "'m event list \<Rightarrow> nat list" where
  "closed_handles [] = []"
| "closed_handles (Close_ev s # evs) = s # closed_handles evs"
| "closed_handles (ev # evs) = closed_handles evs"

definition open_sessions :: "'m world \<Rightarrow> nat list" where
  "open_sessions w = filter (\<lambda>s. \<not> session_closed (sessions w ! s)) [0 ..< length (sessions w)]"

definition opens_session_of :: "logsExporter \<Rightarrow> 'm world \<Rightarrow> 'm world \<Rightarrow> bool" where
  "opens_session_of e w w' =
     (case client e of
        None \<Rightarrow> False
      | Some s \<Rightarrow> length (sessions w) \<le> s \<and> s < length (sessions w'))"

subsection \<open>Columns of a Row\<close>

text \<open>
  The positions of the trace id, span id, service name and body among the ten values of
  the insert statement.
\<close>

definition row_traceid :: "'m arg list \<Rightarrow> 'm arg" where "row_traceid vs = vs ! 1"

definition row_spanid :: "'m arg list \<Rightarrow> 'm arg" where "row_spanid vs = vs ! 2"

definition row_serviceName :: "'m arg list \<Rightarrow> 'm arg" where "row_serviceName vs = vs ! 6"

definition row_body :: "'m arg list \<Rightarrow> 'm arg" where "row_body vs = vs ! 7"

subsection \<open>The records of a batch\<close>

text \<open>
  \<open>all_records\<close> lists the records of a batch in resource, scope, record order.
  \<open>labelled\<close> lists them with the service name and the resource attributes that the
  traversal holds when it reaches them; \<open>row_of\<close> is the value list built for one
  record, \<open>insert_ev\<close> the driver call that executes it, \<open>error_entries\<close> the
  log entries written for a list of insert results and \<open>debug_entry\<close> the summary
  entry. \<open>ran\<close> relates the worlds before and after the inserts of a list of
  labelled records.
\<close>

definition all_records :: "Logs \<Rightarrow> LogRecord list" where
  "all_records ld = concat (map (\<lambda>rl. concat (map LogRecords (ScopeLogs rl))) ld)"

definition row_of :: "'m extern \<Rightarrow> string \<Rightarrow> 'm \<Rightarrow> LogRecord \<Rightarrow> 'm arg list" where
  "row_of x serviceName resAttr r =
     [ArgTime (Timestamp r),
      ArgString (TraceIDToHexOrEmptyString (TraceID r)),
      ArgString (SpanIDToHexOrEmptyString (SpanID r)),
      ArgUint32 (Flags r),
      ArgString (SeverityText r),
      ArgInt32 (SeverityNumber r),
      ArgString serviceName,
      ArgString (case json_Marshal x (Body r) of Inl _ \<Rightarrow> [] | Inr b \<Rightarrow> b),
      ArgMap resAttr,
      ArgMap (attributesToMap x (Attributes r))]"

fun insert_ev ::
  "'m extern \<Rightarrow> logsExporter \<Rightarrow> nat \<Rightarrow> (nat \<Rightarrow> error option) \<Rightarrow> nat \<times> string \<times> 'm \<times> LogRecord \<Rightarrow> 'm event" where
  "insert_ev x e s oc (i, sn, ra, r) =
     Exec_ev s (Sprintf insertLogTableSQL [Keyspace (cfg e), LogsTable (cfg e)]) (row_of x sn ra r) (oc i)"

definition error_entry :: "logsExporter \<Rightarrow> error \<Rightarrow> log_entry" where
  "error_entry e err =
     \<lparr>entry_logger = logger e, entry_level = ErrorLevel, entry_msg = ''insert log error'',
      entry_fields = [zap_Error err]\<rparr>"

fun error_entries :: "logsExporter \<Rightarrow> error option list \<Rightarrow> log_entry list" where
  "error_entries e [] = []"
| "error_entries e (None # rs) = error_entries e rs"
| "error_entries e (Some err # rs) = error_entry e err # error_entries e rs"

fun labelled :: "'m extern \<Rightarrow> string \<Rightarrow> Logs \<Rightarrow> (string \<times> 'm \<times> LogRecord) list" where
  "labelled x sn [] = []"
| "labelled x sn (rl # rest) =
     (let sn' = (case Map_Get (Resource rl) AttributeServiceName of Some v \<Rightarrow> Value_Str v | None \<Rightarrow> sn)
      in map (\<lambda>r. (sn', attributesToMap x (Resource rl), r)) (concat (map LogRecords (ScopeLogs rl)))
         @ labelled x sn' rest)"

definition frame :: "'m world \<Rightarrow> 'm world \<Rightarrow> bool" where
  "frame w w' \<longleftrightarrow> sessions w' = sessions w \<and> outcome w' = outcome w
     \<and> clock w' = clock w \<and> clock_reads w' = clock_reads w"

definition ran ::
  "'m extern \<Rightarrow> logsExporter \<Rightarrow> nat \<Rightarrow> (string \<times> 'm \<times> LogRecord) list \<Rightarrow> 'm world \<Rightarrow> 'm world \<Rightarrow> bool" where
  "ran x e s items w w' \<longleftrightarrow>
     frame w w'
     \<and> events w' = events w @ map (insert_ev x e s (outcome w)) (enumerate (length (events w)) items)
     \<and> logs w' = logs w @
          error_entries e (map (outcome w) [length (events w) ..< length (events w) + length items])"

definition debug_entry :: "'m extern \<Rightarrow> logsExporter \<Rightarrow> Logs \<Rightarrow> int \<Rightarrow> log_entry" where
  "debug_entry x e ld d =
     \<lparr>entry_logger = logger e, entry_level = DebugLevel, entry_msg = ''insert logs'',
      entry_fields = [zap_Int ''records'' (int (LogRecordCount ld)),
                      zap_String ''cost'' (Duration_String x d)]\<rparr>"

subsection \<open>Decoding hex strings\<close>

text \<open>
  \<open>hex.DecodeString\<close> of the Go library, to state the round trip, and the rendering
  that the spec asks of an id: empty for an all-zero id, else lowercase hex of twice the
  length that decodes to the id.
\<close>

definition fromHexChar :: "char \<Rightarrow> nat option" where
  "fromHexChar c =
     (let n = (of_char c :: nat) in
      if of_char CHR ''0'' \<le> n \<and> n \<le> of_char CHR ''9'' then Some (n - of_char CHR ''0'')
      else if of_char CHR ''a'' \<le> n \<and> n \<le> of_char CHR ''f'' then Some (n - of_char CHR ''a'' + 10)
      else if of_char CHR ''A'' \<le> n \<and> n \<le> of_char CHR ''F'' then Some (n - of_char CHR ''A'' + 10)
      else None)"

fun hex_DecodeString :: "string \<Rightarrow> byte list option" where
  "hex_DecodeString [] = Some []"
| "hex_DecodeString [c] = None"
| "hex_DecodeString (a # b # rest) =
     (case fromHexChar a of
        None \<Rightarrow> None
      | Some h \<Rightarrow>
          (case fromHexChar b of
             None \<Rightarrow> None
           | Some l \<Rightarrow>
               (case hex_DecodeString rest of
                  None \<Rightarrow> None
                | Some bs \<Rightarrow> Some (word_of_nat (h * 16 + l) # bs))))"

definition lowercase_hex :: "char \<Rightarrow> bool" where
  "lowercase_hex c = (c \<in> set ''0123456789abcdef'')"

definition hex_or_empty :: "byte list \<Rightarrow> string \<Rightarrow> bool" where
  "hex_or_empty tid str =
     (if IsEmpty tid then str = []
      else length str = 2 * length tid \<and> list_all lowercase_hex str
           \<and> hex_DecodeString str = Some tid)"

subsection \<open>Concrete inputs\<close>

text \<open>
  A batch of two resources and three records: the first resource names its service, the
  second does not; the body of the second record is a NaN, which \<open>json.Marshal\<close>
  rejects. In \<open>example_world\<close> the exporter's session is open and the second insert
  fails.
\<close>

definition example_extern :: "pmap extern" where
  "example_extern =
     \<lparr>attributesToMap = (\<lambda>m. m),
      json_Marshal = (\<lambda>v. case v of
                        ValueStr s \<Rightarrow> Inr (CHR 0x22 # s @ [CHR 0x22])
                      | ValueDouble d \<Rightarrow> Inl (Error ''json: unsupported value: NaN'')
                      | _ \<Rightarrow> Inr ''null''),
      Duration_String = (\<lambda>d. if d = 1000 then ''1us'' else ''?'')\<rparr>"

definition example_cfg :: Config where
  "example_cfg =
     \<lparr>DSN = ''127.0.0.1'', Keyspace = ''otel'', LogsTable = ''otel_logs'',
      Compression = \<lparr>Algorithm = ''LZ4Compressor''\<rparr>\<rparr>"

definition example_exporter :: logsExporter where
  "example_exporter = \<lparr>client = Some 0, logger = ''cassandra'', cfg = example_cfg\<rparr>"

definition fresh_world :: "(nat \<Rightarrow> error option) \<Rightarrow> pmap world" where
  "fresh_world oc =
     \<lparr>sessions = [], events = [], outcome = oc, logs = [],
      clock = (\<lambda>n. 1000 * int n), clock_reads = 0\<rparr>"

definition example_world :: "pmap world" where
  "example_world =
     \<lparr>sessions = [\<lparr>session_cfg = NewCluster ''127.0.0.1'', session_closed = False\<rparr>],
      events = [CreateSession_ev (NewCluster ''127.0.0.1'') None],
      outcome = (\<lambda>n. if n = 2 then Some (Error ''write timeout'') else None),
      logs = [],
      clock = (\<lambda>n. 1000 * int n),
      clock_reads = 0\<rparr>"

definition example_record1 :: LogRecord where
  "example_record1 =
     \<lparr>Timestamp = 1700000000000000000,
      TraceID = [0x5b, 0x8e, 0xff, 0xf7, 0x98, 0x03, 0x81, 0x03, 0xd2, 0x69, 0xb6, 0x33, 0x81, 0x3f, 0xc6, 0x0c],
      SpanID = [0xee, 0xe1, 0x9b, 0x7e, 0xc3, 0xc1, 0xb1, 0x74],
      Flags = 1, SeverityText = ''INFO'', SeverityNumber = 9,
      Body = ValueStr ''hello'', Attributes = [(''k'', ValueInt 1)]\<rparr>"

definition example_record2 :: LogRecord where
  "example_record2 =
     \<lparr>Timestamp = 1700000000000000001,
      TraceID = [0, 0, 0, 0, 0, 0, 0, 0, 0, 0, 0, 0, 0, 0, 0, 0],
      SpanID = [0, 0, 0, 0, 0, 0, 0, 0],
      Flags = 0, SeverityText = ''WARN'', SeverityNumber = 13,
      Body = ValueDouble 0x7FF8000000000000, Attributes = []\<rparr>"

definition example_record3 :: LogRecord where
  "example_record3 =
     \<lparr>Timestamp = 1700000000000000002,
      TraceID = [0, 0, 0, 0, 0, 0, 0, 0, 0, 0, 0, 0, 0, 0, 0, 0],
      SpanID = [0, 0, 0, 0, 0, 0, 0, 1],
      Flags = 0, SeverityText = ''ERROR'', SeverityNumber = 17,
      Body = ValueBool True, Attributes = []\<rparr>"

definition example_logs :: Logs where
  "example_logs =
     [\<lparr>Resource = [(''service.name'', ValueStr ''checkout'')],
       ScopeLogs = [\<lparr>LogRecords = [example_record1]\<rparr>, \<lparr>LogRecords = [example_record2]\<rparr>]\<rparr>,
      \<lparr>Resource = [(''host.name'', ValueStr ''h1'')],
       ScopeLogs = [\<lparr>LogRecords = [example_record3]\<rparr>]\<rparr>]"

definition no_failures :: "nat \<Rightarrow> error option" where
  "no_failures n = None"

definition keyspace_fails :: "nat \<Rightarrow> error option" where
  "keyspace_fails n = (if n = 1 then Some (Error ''keyspace unavailable'') else None)"

definition table_fails :: "nat \<Rightarrow> error option" where
  "table_fails n = (if n = 2 then Some (Error ''table unavailable'') else None)"

definition constructed_world :: "pmap world" where
  "constructed_world = snd (newLogsExporter ''cassandra'' example_cfg (fresh_world no_failures))"

section \<open>Lemmas\<close>

subsection \<open>The insert loops\<close>

lemma error_entries_append: "error_entries e (xs @ ys) = error_entries e xs @ error_entries e ys"
  by (induction e xs rule: error_entries.induct) simp_all

lemma upt_split: "[n ..< n + (a + b)] = [n ..< n + a] @ [n + a ..< n + a + b]"
  using upt_add_eq_append [of n "n + a" b] by (simp only: add.assoc le_add1)

lemma ran_Nil: "ran x e s [] w w"
  by (simp add: ran_def frame_def)

lemma ran_trans:
  assumes "ran x e s xs w w1" and "ran x e s ys w1 w2"
  shows "ran x e s (xs @ ys) w w2"
proof -
  let ?n = "length (events w)"
  have oc: "outcome w1 = outcome w" and len: "length (events w1) = ?n + length xs"
    using assms(1) by (simp_all add: ran_def frame_def)
  have fr: "frame w w2"
    using assms by (simp add: ran_def frame_def)
  have ev1: "events w1 = events w @ map (insert_ev x e s (outcome w)) (enumerate ?n xs)"
    using assms(1) by (simp add: ran_def)
  have ev2: "events w2 = events w1 @ map (insert_ev x e s (outcome w)) (enumerate (?n + length xs) ys)"
    using assms(2) by (simp add: ran_def oc len)
  have ev: "events w2 = events w @ map (insert_ev x e s (outcome w)) (enumerate ?n (xs @ ys))"
    by (simp add: ev1 ev2 enumerate_append_eq)
  have lg1: "logs w1 = logs w @ error_entries e (map (outcome w) [?n ..< ?n + length xs])"
    using assms(1) by (simp add: ran_def)
  have lg2: "logs w2 = logs w1 @
      error_entries e (map (outcome w) [?n + length xs ..< ?n + length xs + length ys])"
    using assms(2) by (simp add: ran_def oc len)
  have "[?n ..< ?n + length (xs @ ys)] = [?n ..< ?n + length xs] @ [?n + length xs ..< ?n + length xs + length ys]"
    using upt_split [of ?n "length xs" "length ys"] by simp
  then have lg: "logs w2 = logs w @ error_entries e (map (outcome w) [?n ..< ?n + length (xs @ ys)])"
    by (simp only: lg1 lg2 map_append error_entries_append append_assoc)
  from fr ev lg show ?thesis by (simp only: ran_def simp_thms)
qed

lemma record_step:
  assumes "client e = Some s"
  shows "\<exists>w2. pushLogsData_records x e sn ra (r # rs) w = pushLogsData_records x e sn ra rs w2
           \<and> ran x e s [(sn, ra, r)] w w2"
proof -
  define ev where "ev = insert_ev x e s (outcome w) (length (events w), sn, ra, r)"
  define w1 where "w1 = w\<lparr>events := events w @ [ev]\<rparr>"
  define w2 where "w2 = (case outcome w (length (events w)) of
      Some err \<Rightarrow> Logger_Error (logger e) ''insert log error'' [zap_Error err] w1
    | None \<Rightarrow> w1)"
  have "pushLogsData_records x e sn ra (r # rs) w = pushLogsData_records x e sn ra rs w2"
    unfolding w2_def w1_def ev_def insert_ev.simps row_of_def
    using assms by (simp add: Exec_def Let_def)
  moreover have "ran x e s [(sn, ra, r)] w w2"
    by (cases "outcome w (length (events w))")
       (simp_all add: w2_def w1_def ev_def ran_def frame_def Logger_Error_def error_entry_def)
  ultimately show ?thesis by blast
qed

lemma records_run:
  assumes "client e = Some s"
  shows "\<exists>w'. pushLogsData_records x e sn ra rs w = Some w'
           \<and> ran x e s (map (\<lambda>r. (sn, ra, r)) rs) w w'"
proof (induction rs arbitrary: w)
  case Nil
  show ?case by (simp add: ran_Nil)
next
  case (Cons r rs)
  from record_step [OF assms, of x sn ra r rs w] obtain w2 where
    step: "pushLogsData_records x e sn ra (r # rs) w = pushLogsData_records x e sn ra rs w2"
    and one: "ran x e s [(sn, ra, r)] w w2"
    by blast
  from Cons.IH [of w2] obtain w' where
    run: "pushLogsData_records x e sn ra rs w2 = Some w'"
    and rest: "ran x e s (map (\<lambda>r. (sn, ra, r)) rs) w2 w'"
    by blast
  from ran_trans [OF one rest] step run show ?case by simp
qed

lemma scopes_run:
  assumes "client e = Some s"
  shows "\<exists>w'. pushLogsData_scopes x e sn ra sls w = Some w'
           \<and> ran x e s (map (\<lambda>r. (sn, ra, r)) (concat (map LogRecords sls))) w w'"
proof (induction sls arbitrary: w)
  case Nil
  show ?case by (simp add: ran_Nil)
next
  case (Cons sl sls)
  from records_run [OF assms, of x sn ra "LogRecords sl" w] obtain w1 where
    first: "pushLogsData_records x e sn ra (LogRecords sl) w = Some w1"
    and one: "ran x e s (map (\<lambda>r. (sn, ra, r)) (LogRecords sl)) w w1"
    by blast
  from Cons.IH [of w1] obtain w' where
    run: "pushLogsData_scopes x e sn ra sls w1 = Some w'"
    and rest: "ran x e s (map (\<lambda>r. (sn, ra, r)) (concat (map LogRecords sls))) w1 w'"
    by blast
  from ran_trans [OF one rest] first run show ?case by simp
qed

lemma resources_run:
  assumes "client e = Some s"
  shows "\<exists>w'. pushLogsData_resources x e sn ld w = Some w' \<and> ran x e s (labelled x sn ld) w w'"
proof (induction ld arbitrary: sn w)
  case Nil
  show ?case by (simp add: ran_Nil)
next
  case (Cons rl rest)
  define sn' where "sn' = (case Map_Get (Resource rl) AttributeServiceName of
      Some v \<Rightarrow> Value_Str v | None \<Rightarrow> sn)"
  from scopes_run [OF assms, of x sn' "attributesToMap x (Resource rl)" "ScopeLogs rl" w] obtain w1 where
    first: "pushLogsData_scopes x e sn' (attributesToMap x (Resource rl)) (ScopeLogs rl) w = Some w1"
    and one: "ran x e s (map (\<lambda>r. (sn', attributesToMap x (Resource rl), r))
                (concat (map LogRecords (ScopeLogs rl)))) w w1"
    by blast
  from Cons.IH [of sn' w1] obtain w' where
    run: "pushLogsData_resources x e sn' rest w1 = Some w'"
    and rest: "ran x e s (labelled x sn' rest) w1 w'"
    by blast
  from ran_trans [OF one rest] first run show ?case
    by (simp add: Let_def sn'_def [symmetric])
qed

lemma pushLogsData_run:
  assumes "client e = Some s"
  shows "\<exists>w'. pushLogsData x e ld w = Some (None, w')
     \<and> sessions w' = sessions w
     \<and> events w' = events w @ map (insert_ev x e s (outcome w)) (enumerate (length (events w)) (labelled x [] ld))
     \<and> logs w' = logs w @
          error_entries e (map (outcome w) [length (events w) ..< length (events w) + length (labelled x [] ld)])
          @ [debug_entry x e ld (clock w (clock_reads w + 1) - clock w (clock_reads w))]"
proof -
  define w0 where "w0 = w\<lparr>clock_reads := clock_reads w + 1\<rparr>"
  from resources_run [OF assms, of x "[]" ld w0] obtain w1 where
    run: "pushLogsData_resources x e [] ld w0 = Some w1" and r: "ran x e s (labelled x [] ld) w0 w1"
    by blast
  show ?thesis
    using run r
    by (simp add: pushLogsData_def time_Now_def time_Since_def w0_def Logger_Debug_def
        debug_entry_def ran_def frame_def)
qed

subsection \<open>Rows of a run\<close>

lemma insert_rows_map:
  "insert_rows (map (insert_ev x e s oc) items) = map (\<lambda>(i, sn, ra, r). row_of x sn ra r) items"
  by (induction items) auto

lemma insert_results_map: "insert_results (map (insert_ev x e s oc) items) = map (\<lambda>(i, sn, ra, r). oc i) items"
  by (induction items) auto

lemma map_enumerate_index: "map (\<lambda>(i, sn, ra, r). f i) (enumerate n xs) = map f [n ..< n + length xs]"
  by (induction xs arbitrary: n) (simp_all add: upt_conv_Cons del: upt_Suc)

lemma map_enumerate_item: "map (\<lambda>(i, sn, ra, r). g sn ra r) (enumerate n xs) = map (\<lambda>(sn, ra, r). g sn ra r) xs"
  by (induction xs arbitrary: n) auto

lemma labelled_records: "map (\<lambda>(sn, ra, r). r) (labelled x sn ld) = all_records ld"
  by (induction ld arbitrary: sn) (simp_all add: all_records_def Let_def comp_def)

lemma length_all_records: "length (all_records ld) = LogRecordCount ld"
  by (induction ld) (simp_all add: all_records_def LogRecordCount_def length_concat comp_def)

lemma length_labelled: "length (labelled x sn ld) = LogRecordCount ld"
  using labelled_records [of x sn ld, THEN arg_cong, of length] by (simp add: length_all_records)

lemma pushLogsData_rows:
  assumes "client e = Some s"
  shows "\<exists>w'. pushLogsData x e ld w = Some (None, w')
     \<and> take (length (events w)) (events w') = events w
     \<and> length (new_events w w') = LogRecordCount ld
     \<and> insert_rows (new_events w w') = map (\<lambda>(sn, ra, r). row_of x sn ra r) (labelled x [] ld)
     \<and> insert_results (new_events w w') =
          map (outcome w) [length (events w) ..< length (events w) + LogRecordCount ld]
     \<and> new_logs w w' =
          error_entries e (map (outcome w) [length (events w) ..< length (events w) + LogRecordCount ld])
          @ [debug_entry x e ld (clock w (clock_reads w + 1) - clock w (clock_reads w))]"
proof -
  from pushLogsData_run [OF assms, of x ld w] obtain w' where
    run: "pushLogsData x e ld w = Some (None, w')"
    and ev: "events w' = events w @
        map (insert_ev x e s (outcome w)) (enumerate (length (events w)) (labelled x [] ld))"
    and lg: "logs w' = logs w @
        error_entries e (map (outcome w)
          [length (events w) ..< length (events w) + length (labelled x [] ld)])
        @ [debug_entry x e ld (clock w (clock_reads w + 1) - clock w (clock_reads w))]"
    by blast
  have new: "new_events w w' =
      map (insert_ev x e s (outcome w)) (enumerate (length (events w)) (labelled x [] ld))"
    by (simp add: new_events_def ev)
  have "take (length (events w)) (events w') = events w"
    by (simp add: ev)
  moreover have "length (new_events w w') = LogRecordCount ld"
    by (simp add: new length_labelled)
  moreover have "insert_rows (new_events w w') =
      map (\<lambda>(sn, ra, r). row_of x sn ra r) (labelled x [] ld)"
    by (simp only: new insert_rows_map map_enumerate_item)
  moreover have "insert_results (new_events w w') =
      map (outcome w) [length (events w) ..< length (events w) + LogRecordCount ld]"
    by (simp only: new insert_results_map map_enumerate_index length_labelled)
  moreover have "new_logs w w' =
      error_entries e (map (outcome w) [length (events w) ..< length (events w) + LogRecordCount ld])
      @ [debug_entry x e ld (clock w (clock_reads w + 1) - clock w (clock_reads w))]"
    by (simp add: new_logs_def lg length_labelled)
  ultimately show ?thesis using run by blast
qed

lemma row_columns:
  "row_traceid (row_of x sn ra r) = ArgString (TraceIDToHexOrEmptyString (TraceID r))"
  "row_spanid (row_of x sn ra r) = ArgString (SpanIDToHexOrEmptyString (SpanID r))"
  "row_serviceName (row_of x sn ra r) = ArgString sn"
  "row_body (row_of x sn ra r) = ArgString (case json_Marshal x (Body r) of Inl err \<Rightarrow> [] | Inr b \<Rightarrow> b)"
  by (simp_all add: row_of_def row_traceid_def row_spanid_def row_serviceName_def row_body_def)

lemma map_labelled:
  "map (f \<circ> (\<lambda>(sn, ra, r). row_of x sn ra r)) (labelled x sn ld) = map g (all_records ld)"
  if "\<And>sn ra r. f (row_of x sn ra r) = g r"
  using that labelled_records [of x sn ld, symmetric]
  by (simp add: comp_def case_prod_unfold) 

subsection \<open>Hex strings\<close>

lemma lt16_cases:
  "n < 16 \<Longrightarrow> n \<in> {0, 1, 2, 3, 4, 5, 6, 7, 8, 9, 10, 11, 12, 13, 14, 15::nat}"
  by (auto simp: less_Suc_eq numeral_eq_Suc)

lemma byte_nibbles: "unat (b::byte) div 16 < 16" "unat b mod 16 < 16"
  using unsigned_less [of b, where ?'a = nat] by auto

lemma fromHexChar_hex_digit: "n < 16 \<Longrightarrow> fromHexChar (hex_digit n) = Some n"
  by (drule lt16_cases) (auto simp: fromHexChar_def hex_digit_def)

lemma lowercase_hex_digit: "n < 16 \<Longrightarrow> lowercase_hex (hex_digit n)"
  by (drule lt16_cases) (auto simp: lowercase_hex_def hex_digit_def)

lemma hex_roundtrip: "hex_DecodeString (hex_EncodeToString bs) = Some bs"
  by (induction bs) (simp_all add: fromHexChar_hex_digit byte_nibbles)

lemma hex_length: "length (hex_EncodeToString bs) = 2 * length bs"
  by (induction bs) simp_all

lemma hex_lowercase: "list_all lowercase_hex (hex_EncodeToString bs)"
  by (induction bs) (simp_all add: lowercase_hex_digit byte_nibbles)

lemma hex_or_empty_trace: "hex_or_empty tid (TraceIDToHexOrEmptyString tid)"
  by (simp add: hex_or_empty_def TraceIDToHexOrEmptyString_def hex_roundtrip hex_length hex_lowercase)

lemma hex_or_empty_span: "hex_or_empty tid (SpanIDToHexOrEmptyString tid)"
  by (simp add: hex_or_empty_def SpanIDToHexOrEmptyString_def hex_roundtrip hex_length hex_lowercase)

subsection \<open>The concrete batch\<close>

lemma example_labelled:
  "labelled example_extern [] example_logs =
     [(''checkout'', [(''service.name'', ValueStr ''checkout'')], example_record1),
      (''checkout'', [(''service.name'', ValueStr ''checkout'')], example_record2),
      (''checkout'', [(''host.name'', ValueStr ''h1'')], example_record3)]"
  by (simp add: example_logs_def example_extern_def Map_Get_def AttributeServiceName_def Let_def)

lemma example_count: "LogRecordCount example_logs = 3"
  by (simp add: example_logs_def LogRecordCount_def)

lemma example_all_records: "all_records example_logs = [example_record1, example_record2, example_record3]"
  by (simp add: example_logs_def all_records_def)

subsection \<open>The schema initializer\<close>

lemma initializeLogKernel_cases:
  "initializeLogKernel c w =
    (let n = length (events w); k = length (sessions w); cl = NewCluster (DSN c);
         opened = sessions w @ [\<lparr>session_cfg = cl, session_closed = False\<rparr>];
         released = sessions w @ [\<lparr>session_cfg = cl, session_closed = True\<rparr>]
     in case outcome w n of
       Some err \<Rightarrow> (Some err, w\<lparr>events := events w @ [CreateSession_ev cl (Some err)]\<rparr>)
     | None \<Rightarrow>
       (case outcome w (n + 1) of
          Some err \<Rightarrow>
            (Some err, w\<lparr>sessions := opened, events := events w @
               [CreateSession_ev cl None, Exec_ev k (parseCreateDatabaseSQL c) [] (Some err)]\<rparr>)
        | None \<Rightarrow>
          (case outcome w (n + 2) of
             Some err \<Rightarrow>
               (Some err, w\<lparr>sessions := opened, events := events w @
                  [CreateSession_ev cl None, Exec_ev k (parseCreateDatabaseSQL c) [] None,
                   Exec_ev k (parseCreateLogTableSQL c) [] (Some err)]\<rparr>)
           | None \<Rightarrow>
               (None, w\<lparr>sessions := released, events := events w @
                  [CreateSession_ev cl None, Exec_ev k (parseCreateDatabaseSQL c) [] None,
                   Exec_ev k (parseCreateLogTableSQL c) [] None, Close_ev k]\<rparr>))))"
  by (simp add: initializeLogKernel_def CreateSession_def Exec_def Close_def Let_def NewCluster_def
      split: option.splits)

lemma stmts_distinct: "parseCreateLogTableSQL c \<noteq> parseCreateDatabaseSQL c"
  by (simp add: parseCreateLogTableSQL_def parseCreateDatabaseSQL_def)

lemma open_sessions_append_closed:
  "open_sessions (w\<lparr>sessions := sessions w @ [\<lparr>session_cfg = cl, session_closed = True\<rparr>], events := evs\<rparr>)
     = open_sessions w"
proof -
  have "filter (\<lambda>s. \<not> session_closed ((sessions w @ [\<lparr>session_cfg = cl, session_closed = True\<rparr>]) ! s))
          [0 ..< length (sessions w)]
      = filter (\<lambda>s. \<not> session_closed (sessions w ! s)) [0 ..< length (sessions w)]"
    by (rule filter_cong) (simp_all add: nth_append)
  then show ?thesis
    by (simp add: open_sessions_def)
qed

lemma Start_success_sessions:
  assumes "fst (Start e w) = None"
  shows "open_sessions (snd (Start e w)) = open_sessions w"
    and "open_results (new_events w (snd (Start e w))) = [None]"
    and "closed_handles (new_events w (snd (Start e w))) = [length (sessions w)]"
  using assms
  unfolding Start_def initializeLogKernel_cases Let_def
  by (auto simp: open_sessions_append_closed new_events_def split: option.splits)

section \<open>Properties of the exporter\<close>

subsection \<open>Pushing a batch\<close>

text \<open>
  C1. For an exporter that holds a session, and for every batch and every result of the
  insert calls (every oracle \<open>outcome w\<close>), \<open>pushLogsData\<close> returns the nil error.
  One insert is attempted per record whatever the earlier results were, and the
  error-level entries logged are exactly one per failed insert, in order: a failure is
  logged and the traversal goes on.
\<close>

theorem pushLogsData_returns_nil:
  assumes "client e = Some s"
  shows "\<exists>w'. pushLogsData x e ld w = Some (None, w')
     \<and> length (insert_results (new_events w w')) = LogRecordCount ld
     \<and> insert_results (new_events w w') =
          map (outcome w) [length (events w) ..< length (events w) + LogRecordCount ld]
     \<and> filter (\<lambda>l. entry_level l = ErrorLevel) (new_logs w w') =
          error_entries e (insert_results (new_events w w'))"
proof -
  from pushLogsData_rows [OF assms, of x ld w] obtain w' where
    run: "pushLogsData x e ld w = Some (None, w')"
    and res: "insert_results (new_events w w') =
          map (outcome w) [length (events w) ..< length (events w) + LogRecordCount ld]"
    and lg: "new_logs w w' =
          error_entries e (map (outcome w) [length (events w) ..< length (events w) + LogRecordCount ld])
          @ [debug_entry x e ld (clock w (clock_reads w + 1) - clock w (clock_reads w))]"
    by blast
  have flt: "filter (\<lambda>l. entry_level l = ErrorLevel) (error_entries e rs) = error_entries e rs" for rs
    by (induction e rs rule: error_entries.induct) (simp_all add: error_entry_def)
  have "filter (\<lambda>l. entry_level l = ErrorLevel) (new_logs w w') =
          error_entries e (insert_results (new_events w w'))"
    by (simp add: lg res flt debug_entry_def)
  with run res show ?thesis by simp
qed

text \<open>
  On the concrete batch the second of three inserts fails: all three are attempted, one
  error entry is logged and the call returns nil.
\<close>

theorem pushLogsData_returns_nil_witness:
  "client example_exporter = Some 0
   \<and> (\<exists>w'. pushLogsData example_extern example_exporter example_logs example_world = Some (None, w')
        \<and> insert_results (new_events example_world w') = [None, Some (Error ''write timeout''), None]
        \<and> map entry_fields (filter (\<lambda>l. entry_level l = ErrorLevel) (new_logs example_world w')) =
            [[zap_Error (Error ''write timeout'')]])"
proof -
  have h: "client example_exporter = Some 0"
    by (simp add: example_exporter_def)
  have oc: "map (outcome example_world) [length (events example_world) ..< length (events example_world) + 3]
      = [None, Some (Error ''write timeout''), None]"
    by (simp add: example_world_def upt_conv_Cons del: upt_Suc)
  from pushLogsData_returns_nil [OF h, of example_extern example_logs example_world]
  show ?thesis
    using h by (auto simp: example_count oc error_entry_def)
qed

text \<open>
  C2. The claim asks that a resource without \<open>service.name\<close> gives its Rows the
  empty service name. The variable \<open>serviceName\<close> is declared before the loop over the
  resources and only assigned when the attribute is present, so the second resource of
  the concrete batch, which has no \<open>service.name\<close>, inherits the name of the first:
  its Row carries \<open>checkout\<close>, not the empty string.
\<close>

theorem pushLogsData_service_name_carried_over:
  "Map_Get (Resource (example_logs ! 1)) AttributeServiceName = None
   \<and> (\<exists>w'. pushLogsData example_extern example_exporter example_logs example_world = Some (None, w')
        \<and> map row_serviceName (insert_rows (new_events example_world w')) =
            [ArgString ''checkout'', ArgString ''checkout'', ArgString ''checkout''])"
proof -
  have h: "client example_exporter = Some 0"
    by (simp add: example_exporter_def)
  have "Map_Get (Resource (example_logs ! 1)) AttributeServiceName = None"
    by (simp add: example_logs_def Map_Get_def AttributeServiceName_def)
  moreover from pushLogsData_rows [OF h, of example_extern example_logs example_world]
  have "\<exists>w'. pushLogsData example_extern example_exporter example_logs example_world = Some (None, w')
        \<and> map row_serviceName (insert_rows (new_events example_world w')) =
            [ArgString ''checkout'', ArgString ''checkout'', ArgString ''checkout'']"
    by (auto simp: example_labelled row_columns)
  ultimately show ?thesis by simp
qed

text \<open>
  C3. For an exporter that holds a session, \<open>pushLogsData\<close> makes exactly as many
  driver calls as the batch has records, summed over resources and scopes, every one of
  them an insert statement, and leaves the earlier calls as they were. This holds for
  every result of the inserts and of \<open>json.Marshal\<close> and every \<open>attributesToMap\<close>.
\<close>

theorem pushLogsData_one_insert_per_record:
  assumes "client e = Some s"
  shows "\<exists>w'. pushLogsData x e ld w = Some (None, w')
     \<and> take (length (events w)) (events w') = events w
     \<and> length (new_events w w') =
          sum_list (map (\<lambda>rl. sum_list (map (\<lambda>sl. length (LogRecords sl)) (ScopeLogs rl))) ld)
     \<and> length (insert_rows (new_events w w')) =
          sum_list (map (\<lambda>rl. sum_list (map (\<lambda>sl. length (LogRecords sl)) (ScopeLogs rl))) ld)"
proof -
  from pushLogsData_rows [OF assms, of x ld w] obtain w' where
    run: "pushLogsData x e ld w = Some (None, w')"
    and pre: "take (length (events w)) (events w') = events w"
    and len: "length (new_events w w') = LogRecordCount ld"
    and rows: "insert_rows (new_events w w') = map (\<lambda>(sn, ra, r). row_of x sn ra r) (labelled x [] ld)"
    by blast
  have "length (insert_rows (new_events w w')) = LogRecordCount ld"
    by (simp add: rows length_labelled)
  with run pre len show ?thesis
    by (simp add: LogRecordCount_def)
qed

text \<open>
  The concrete batch has three records and three inserts are issued, the second failing.
\<close>

theorem pushLogsData_one_insert_per_record_witness:
  "client example_exporter = Some 0
   \<and> (\<exists>w'. pushLogsData example_extern example_exporter example_logs example_world = Some (None, w')
        \<and> take 1 (events w') = events example_world
        \<and> length (new_events example_world w') = 3
        \<and> length (insert_rows (new_events example_world w')) = 3)"
proof -
  have h: "client example_exporter = Some 0"
    by (simp add: example_exporter_def)
  have n: "length (events example_world) = 1"
    by (simp add: example_world_def)
  from pushLogsData_one_insert_per_record [OF h, of example_extern example_logs example_world]
  show ?thesis
    using h by (simp add: n example_count [unfolded LogRecordCount_def])
qed

text \<open>
  C7. For an exporter that holds a session, \<open>pushLogsData\<close> returns nil and issues
  one Row per record whatever \<open>json.Marshal\<close> answers. The body of each Row is
  determined by its own record alone: the marshalled body, or the empty string when
  \<open>json.Marshal\<close> fails on that record's body.
\<close>

theorem pushLogsData_body_marshal_failure:
  assumes "client e = Some s"
  shows "\<exists>w'. pushLogsData x e ld w = Some (None, w')
     \<and> length (insert_rows (new_events w w')) = length (all_records ld)
     \<and> map row_body (insert_rows (new_events w w')) =
          map (\<lambda>r. ArgString (case json_Marshal x (Body r) of Inl err \<Rightarrow> [] | Inr b \<Rightarrow> b))
            (all_records ld)
     \<and> (\<forall>i < length (all_records ld).
          (\<exists>err. json_Marshal x (Body (all_records ld ! i)) = Inl err) \<longrightarrow>
          row_body (insert_rows (new_events w w') ! i) = ArgString [])"
proof -
  from pushLogsData_rows [OF assms, of x ld w] obtain w' where
    run: "pushLogsData x e ld w = Some (None, w')"
    and rows: "insert_rows (new_events w w') = map (\<lambda>(sn, ra, r). row_of x sn ra r) (labelled x [] ld)"
    by blast
  have len: "length (insert_rows (new_events w w')) = length (all_records ld)"
    by (simp add: rows length_labelled length_all_records)
  have bodies: "map row_body (insert_rows (new_events w w')) =
      map (\<lambda>r. ArgString (case json_Marshal x (Body r) of Inl err \<Rightarrow> [] | Inr b \<Rightarrow> b))
        (all_records ld)"
    unfolding rows map_map by (rule map_labelled) (rule row_columns)
  have "row_body (insert_rows (new_events w w') ! i) = ArgString []"
    if "i < length (all_records ld)" and "json_Marshal x (Body (all_records ld ! i)) = Inl err"
    for i err
  proof -
    have "row_body (insert_rows (new_events w w') ! i) = map row_body (insert_rows (new_events w w')) ! i"
      using that(1) len by simp
    also have "\<dots> = ArgString (case json_Marshal x (Body (all_records ld ! i)) of Inl err \<Rightarrow> [] | Inr b \<Rightarrow> b)"
      unfolding bodies using that(1) by simp
    finally show ?thesis using that(2) by simp
  qed
  with run len bodies show ?thesis by blast
qed

text \<open>
  In the concrete batch the body of the second record cannot be marshalled: its Row has
  the empty body, the Rows of the other two records have theirs.
\<close>

theorem pushLogsData_body_marshal_failure_witness:
  "client example_exporter = Some 0
   \<and> (\<exists>err. json_Marshal example_extern (Body (all_records example_logs ! 1)) = Inl err)
   \<and> (\<exists>w'. pushLogsData example_extern example_exporter example_logs example_world = Some (None, w')
        \<and> map row_body (insert_rows (new_events example_world w')) =
            [ArgString (CHR 0x22 # ''hello'' @ [CHR 0x22]), ArgString [], ArgString ''null''])"
proof -
  have h: "client example_exporter = Some 0"
    by (simp add: example_exporter_def)
  have m: "json_Marshal example_extern (Body (all_records example_logs ! 1))
      = Inl (Error ''json: unsupported value: NaN'')"
    by (simp add: example_all_records example_record2_def example_extern_def)
  have b: "map (\<lambda>r. ArgString (case json_Marshal example_extern (Body r) of Inl err \<Rightarrow> [] | Inr b \<Rightarrow> b))
      (all_records example_logs) = [ArgString (CHR 0x22 # ''hello'' @ [CHR 0x22]), ArgString [], ArgString ''null'']"
    by (simp add: example_all_records example_record1_def example_record2_def example_record3_def
        example_extern_def)
  from pushLogsData_body_marshal_failure [OF h, of example_extern example_logs example_world]
  show ?thesis
    using h m by (auto simp: b)
qed

text \<open>
  C8. For an exporter that holds a session, the trace id and span id columns of the Row
  of each record are \<open>TraceIDToHexOrEmptyString\<close> and \<open>SpanIDToHexOrEmptyString\<close>
  of the record's ids, and these renderings are the empty string for an all-zero id and
  otherwise a string of lowercase hex digits, twice as long as the id, that decodes to
  the id.
\<close>

theorem pushLogsData_hex_or_empty_ids:
  assumes "client e = Some s"
  shows "\<exists>w'. pushLogsData x e ld w = Some (None, w')
     \<and> map row_traceid (insert_rows (new_events w w')) =
          map (\<lambda>r. ArgString (TraceIDToHexOrEmptyString (TraceID r))) (all_records ld)
     \<and> map row_spanid (insert_rows (new_events w w')) =
          map (\<lambda>r. ArgString (SpanIDToHexOrEmptyString (SpanID r))) (all_records ld)
     \<and> (\<forall>r \<in> set (all_records ld).
          hex_or_empty (TraceID r) (TraceIDToHexOrEmptyString (TraceID r))
          \<and> hex_or_empty (SpanID r) (SpanIDToHexOrEmptyString (SpanID r)))"
proof -
  from pushLogsData_rows [OF assms, of x ld w] obtain w' where
    run: "pushLogsData x e ld w = Some (None, w')"
    and rows: "insert_rows (new_events w w') = map (\<lambda>(sn, ra, r). row_of x sn ra r) (labelled x [] ld)"
    by blast
  have "map row_traceid (insert_rows (new_events w w')) =
      map (\<lambda>r. ArgString (TraceIDToHexOrEmptyString (TraceID r))) (all_records ld)"
    unfolding rows map_map by (rule map_labelled) (rule row_columns)
  moreover have "map row_spanid (insert_rows (new_events w w')) =
      map (\<lambda>r. ArgString (SpanIDToHexOrEmptyString (SpanID r))) (all_records ld)"
    unfolding rows map_map by (rule map_labelled) (rule row_columns)
  ultimately show ?thesis
    using run by (simp add: hex_or_empty_trace hex_or_empty_span)
qed

text \<open>
  The ids of the concrete batch: a 16-byte trace id and 8-byte span ids rendered in hex,
  all-zero ids rendered as the empty string.
\<close>

theorem pushLogsData_hex_or_empty_ids_witness:
  "client example_exporter = Some 0
   \<and> (\<exists>w'. pushLogsData example_extern example_exporter example_logs example_world = Some (None, w')
        \<and> map row_traceid (insert_rows (new_events example_world w')) =
            [ArgString ''5b8efff798038103d269b633813fc60c'', ArgString [], ArgString []]
        \<and> map row_spanid (insert_rows (new_events example_world w')) =
            [ArgString ''eee19b7ec3c1b174'', ArgString [], ArgString ''0000000000000001'']
        \<and> hex_or_empty (TraceID example_record1) ''5b8efff798038103d269b633813fc60c''
        \<and> hex_or_empty (SpanID example_record2) [])"
proof -
  have h: "client example_exporter = Some 0"
    by (simp add: example_exporter_def)
  have t: "map (\<lambda>r. TraceIDToHexOrEmptyString (TraceID r)) (all_records example_logs) =
      [''5b8efff798038103d269b633813fc60c'', [], []]"
    by (simp add: example_all_records example_record1_def example_record2_def example_record3_def
        TraceIDToHexOrEmptyString_def IsEmpty_def hex_digit_def)
  have sp: "map (\<lambda>r. SpanIDToHexOrEmptyString (SpanID r)) (all_records example_logs) =
      [''eee19b7ec3c1b174'', [], ''0000000000000001'']"
    by (simp add: example_all_records example_record1_def example_record2_def example_record3_def
        SpanIDToHexOrEmptyString_def IsEmpty_def hex_digit_def)
  from pushLogsData_hex_or_empty_ids [OF h, of example_extern example_logs example_world]
  show ?thesis
    using h t sp by (auto simp: example_all_records comp_def)
qed

text \<open>
  C10. For a batch without resources \<open>pushLogsData\<close> returns the nil error, makes no
  driver call and logs exactly one entry: the debug-level summary with a record count of
  zero and the duration between the two readings of the clock.
\<close>

theorem pushLogsData_empty_batch:
  "\<exists>w'. pushLogsData x e [] w = Some (None, w')
     \<and> events w' = events w
     \<and> sessions w' = sessions w
     \<and> logs w' = logs w @
          [\<lparr>entry_logger = logger e, entry_level = DebugLevel, entry_msg = ''insert logs'',
            entry_fields = [zap_Int ''records'' 0,
                            zap_String ''cost''
                              (Duration_String x (clock w (clock_reads w + 1) - clock w (clock_reads w)))]\<rparr>]"
  by (simp add: pushLogsData_def time_Now_def time_Since_def Logger_Debug_def LogRecordCount_def)

subsection \<open>Start and Shutdown\<close>

text \<open>
  C4. In a run of \<open>initializeLogKernel\<close>: the session is opened once and each of the
  two DDL statements is executed at most once (nothing is retried); if the CREATE-TABLE
  statement is executed at all, then the CREATE-KEYSPACE statement was executed before it
  and succeeded; the function returns an error if and only if opening the session,
  the keyspace statement or the table statement failed; and \<open>Start\<close> returns what
  \<open>initializeLogKernel\<close> returns.
\<close>

theorem initializeLogKernel_failure_iff:
  assumes "initializeLogKernel c w = (r, w')"
  shows "take (length (events w)) (events w') = events w
     \<and> length (open_results (new_events w w')) = 1
     \<and> length (exec_results (parseCreateDatabaseSQL c) (new_events w w')) \<le> 1
     \<and> length (exec_results (parseCreateLogTableSQL c) (new_events w w')) \<le> 1
     \<and> (exec_results (parseCreateLogTableSQL c) (new_events w w') \<noteq> [] \<longrightarrow>
          exec_results (parseCreateDatabaseSQL c)
            (takeWhile (\<lambda>ev. \<not> is_exec (parseCreateLogTableSQL c) ev) (new_events w w')) = [None])
     \<and> (r \<noteq> None \<longleftrightarrow>
          (\<exists>err. Some err \<in> set (open_results (new_events w w'))
               \<or> Some err \<in> set (exec_results (parseCreateDatabaseSQL c) (new_events w w'))
               \<or> Some err \<in> set (exec_results (parseCreateLogTableSQL c) (new_events w w'))))
     \<and> Start \<lparr>client = cl, logger = lg, cfg = c\<rparr> w = (r, w')"
proof -
  note d = stmts_distinct [of c] stmts_distinct [of c, symmetric]
  note run = assms [unfolded initializeLogKernel_cases Let_def]
  have st: "Start \<lparr>client = cl, logger = lg, cfg = c\<rparr> w = (r, w')"
    using assms by (simp add: Start_def)
  show ?thesis
  proof (cases "outcome w (length (events w))")
    case (Some err)
    with run have "r = Some err" and "new_events w w' = [CreateSession_ev (NewCluster (DSN c)) (Some err)]"
      by (auto simp: new_events_def)
    with run Some st show ?thesis by auto
  next
    case opened: None
    show ?thesis
    proof (cases "outcome w (length (events w) + 1)")
      case (Some err)
      with run opened have "r = Some err" and "new_events w w' =
          [CreateSession_ev (NewCluster (DSN c)) None,
           Exec_ev (length (sessions w)) (parseCreateDatabaseSQL c) [] (Some err)]"
        by (auto simp: new_events_def)
      with run opened Some st d show ?thesis by auto
    next
      case keyspace: None
      show ?thesis
      proof (cases "outcome w (length (events w) + 2)")
        case (Some err)
        with run opened keyspace have "r = Some err" and "new_events w w' =
            [CreateSession_ev (NewCluster (DSN c)) None,
             Exec_ev (length (sessions w)) (parseCreateDatabaseSQL c) [] None,
             Exec_ev (length (sessions w)) (parseCreateLogTableSQL c) [] (Some err)]"
          by (auto simp: new_events_def)
        with run opened keyspace Some st d show ?thesis by auto
      next
        case None
        with run opened keyspace have "r = None" and "new_events w w' =
            [CreateSession_ev (NewCluster (DSN c)) None,
             Exec_ev (length (sessions w)) (parseCreateDatabaseSQL c) [] None,
             Exec_ev (length (sessions w)) (parseCreateLogTableSQL c) [] None,
             Close_ev (length (sessions w))]"
          by (auto simp: new_events_def)
        with run opened keyspace None st d show ?thesis by auto
      qed
    qed
  qed
qed

text \<open>
  A cluster that rejects the table statement: the keyspace statement succeeds first, the
  table statement fails and \<open>Start\<close> returns its error.
\<close>

theorem initializeLogKernel_failure_iff_witness:
  "fst (initializeLogKernel example_cfg (fresh_world table_fails)) = Some (Error ''table unavailable'')
   \<and> new_events (fresh_world table_fails)
        (snd (initializeLogKernel example_cfg (fresh_world table_fails))) =
      [CreateSession_ev (NewCluster ''127.0.0.1'') None,
       Exec_ev 0 (parseCreateDatabaseSQL example_cfg) [] None,
       Exec_ev 0 (parseCreateLogTableSQL example_cfg) [] (Some (Error ''table unavailable''))]
   \<and> exec_results (parseCreateDatabaseSQL example_cfg)
        (takeWhile (\<lambda>ev. \<not> is_exec (parseCreateLogTableSQL example_cfg) ev)
          (new_events (fresh_world table_fails)
            (snd (initializeLogKernel example_cfg (fresh_world table_fails))))) = [None]
   \<and> fst (Start example_exporter (fresh_world table_fails)) = Some (Error ''table unavailable'')"
proof -
  let ?w = "fresh_world table_fails"
  let ?r = "initializeLogKernel example_cfg ?w"
  have r: "fst ?r = Some (Error ''table unavailable'')"
    by (simp add: initializeLogKernel_def CreateSession_def Exec_def Close_def fresh_world_def
        table_fails_def Let_def)
  have ev: "new_events ?w (snd ?r) =
     [CreateSession_ev (NewCluster ''127.0.0.1'') None,
      Exec_ev 0 (parseCreateDatabaseSQL example_cfg) [] None,
      Exec_ev 0 (parseCreateLogTableSQL example_cfg) [] (Some (Error ''table unavailable''))]"
    by (simp add: initializeLogKernel_def CreateSession_def Exec_def Close_def fresh_world_def
        table_fails_def Let_def new_events_def example_cfg_def NewCluster_def)
  have attempted: "exec_results (parseCreateLogTableSQL example_cfg) (new_events ?w (snd ?r)) \<noteq> []"
    by (simp add: ev)
  note t = initializeLogKernel_failure_iff [where c = example_cfg and w = ?w and cl = "Some 0"
      and lg = "''cassandra''", OF surjective_pairing]
  from t attempted have "exec_results (parseCreateDatabaseSQL example_cfg)
        (takeWhile (\<lambda>ev. \<not> is_exec (parseCreateLogTableSQL example_cfg) ev)
          (new_events ?w (snd ?r))) = [None]"
    by blast
  moreover from t have "Start \<lparr>client = Some 0, logger = ''cassandra'', cfg = example_cfg\<rparr> ?w = (fst ?r, snd ?r)"
    by blast
  then have "fst (Start example_exporter ?w) = Some (Error ''table unavailable'')"
    by (simp add: example_exporter_def r)
  ultimately show ?thesis
    using r ev by blast
qed

text \<open>
  \<open>Start\<close> does not open the exporter's session. The exporter built by
  \<open>newLogsExporter\<close> already holds session 0 when \<open>Start\<close> is called, and a
  successful \<open>Start\<close> creates no session that the exporter holds.
\<close>

theorem Start_opens_persistent_session_counterexample:
  "newLogsExporter ''cassandra'' example_cfg (fresh_world no_failures) =
       (Inr example_exporter, constructed_world)
   \<and> fst (Start example_exporter constructed_world) = None
   \<and> \<not> opens_session_of example_exporter constructed_world
          (snd (Start example_exporter constructed_world))"
  by (simp add: newLogsExporter_def constructed_world_def CreateSession_def fresh_world_def
      no_failures_def example_exporter_def Start_def initializeLogKernel_def Exec_def Close_def
      opens_session_of_def Let_def)

text \<open>
  C5, amended. The persistent session is opened by \<open>newLogsExporter\<close>, which stores
  its handle in the exporter. \<open>Start\<close> only invokes the Schema Initializer and returns
  its result, so that it fails whenever the Schema Initializer fails; when it succeeds it
  has opened one session, the administrative one, and closed it again, so the open
  sessions are those that were open before.
\<close>

theorem Start_only_initializes:
  "(newLogsExporter lg c w0 = (Inr e', w1) \<longrightarrow>
       opens_session_of e' w0 w1 \<and> cfg e' = c \<and> open_results (new_events w0 w1) = [None])
   \<and> Start e w = initializeLogKernel (cfg e) w
   \<and> (\<forall>err. fst (initializeLogKernel (cfg e) w) = Some err \<longrightarrow> fst (Start e w) = Some err)
   \<and> (fst (Start e w) = None \<longrightarrow>
        open_sessions (snd (Start e w)) = open_sessions w
        \<and> open_results (new_events w (snd (Start e w))) = [None]
        \<and> closed_handles (new_events w (snd (Start e w))) = [length (sessions w)])"
proof -
  have "opens_session_of e' w0 w1 \<and> cfg e' = c \<and> open_results (new_events w0 w1) = [None]"
    if "newLogsExporter lg c w0 = (Inr e', w1)"
    using that
    by (auto simp: newLogsExporter_def CreateSession_def Let_def opens_session_of_def new_events_def
        split: option.splits)
  moreover have "Start e w = initializeLogKernel (cfg e) w"
    by (simp add: Start_def)
  ultimately show ?thesis
    using Start_success_sessions [of e w] by (simp add: Start_def)
qed

text \<open>
  The constructor on a healthy cluster, \<open>Start\<close> on a cluster that rejects the
  keyspace statement, and \<open>Start\<close> on a healthy cluster.
\<close>

theorem Start_only_initializes_witness:
  "newLogsExporter ''cassandra'' example_cfg (fresh_world no_failures) = (Inr example_exporter, constructed_world)
   \<and> opens_session_of example_exporter (fresh_world no_failures) constructed_world
   \<and> fst (initializeLogKernel (cfg example_exporter) (fresh_world keyspace_fails)) = Some (Error ''keyspace unavailable'')
   \<and> fst (Start example_exporter (fresh_world keyspace_fails)) = Some (Error ''keyspace unavailable'')
   \<and> fst (Start example_exporter constructed_world) = None
   \<and> open_sessions (snd (Start example_exporter constructed_world)) = [0]
   \<and> closed_handles (new_events constructed_world (snd (Start example_exporter constructed_world))) = [1]"
proof -
  have c: "newLogsExporter ''cassandra'' example_cfg (fresh_world no_failures) =
      (Inr example_exporter, constructed_world)"
    by (simp add: newLogsExporter_def constructed_world_def CreateSession_def fresh_world_def
        no_failures_def example_exporter_def Let_def)
  have f: "fst (initializeLogKernel (cfg example_exporter) (fresh_world keyspace_fails)) =
      Some (Error ''keyspace unavailable'')"
    by (simp add: initializeLogKernel_def CreateSession_def Exec_def fresh_world_def
        keyspace_fails_def Let_def)
  have ok: "fst (Start example_exporter constructed_world) = None"
    by (simp add: constructed_world_def newLogsExporter_def CreateSession_def fresh_world_def
      no_failures_def Start_def initializeLogKernel_def Exec_def Close_def Let_def)
  have o: "open_sessions constructed_world = [0]" and n: "length (sessions constructed_world) = 1"
    by (simp_all add: constructed_world_def newLogsExporter_def CreateSession_def fresh_world_def
      no_failures_def open_sessions_def Let_def)
  from c f Start_only_initializes [of "''cassandra''" example_cfg "fresh_world no_failures"
      example_exporter constructed_world example_exporter "fresh_world keyspace_fails"]
  have 1: "opens_session_of example_exporter (fresh_world no_failures) constructed_world"
    and 2: "fst (Start example_exporter (fresh_world keyspace_fails)) = Some (Error ''keyspace unavailable'')"
    by blast+
  from ok Start_only_initializes [of "''cassandra''" example_cfg "fresh_world no_failures"
      example_exporter constructed_world example_exporter constructed_world]
  have "open_sessions (snd (Start example_exporter constructed_world)) = open_sessions constructed_world"
    and "closed_handles (new_events constructed_world (snd (Start example_exporter constructed_world)))
           = [length (sessions constructed_world)]"
    by blast+
  then have 3: "open_sessions (snd (Start example_exporter constructed_world)) = [0]"
    and 4: "closed_handles (new_events constructed_world (snd (Start example_exporter constructed_world))) = [1]"
    by (simp_all only: o n)
  from c 1 f 2 ok 3 4 show ?thesis by blast
qed

text \<open>
  C6. The claim asks that the administrative session is released on every return path.
  The deferred \<open>Close\<close> is registered after both statements have succeeded, so when the
  keyspace statement or the table statement fails the function returns with session 0
  still open and no \<open>Close\<close> call made; only the successful run closes it.
\<close>

theorem initializeLogKernel_leaks_session_on_failure:
  "fst (initializeLogKernel example_cfg (fresh_world keyspace_fails)) = Some (Error ''keyspace unavailable'')
   \<and> open_sessions (snd (initializeLogKernel example_cfg (fresh_world keyspace_fails))) = [0]
   \<and> closed_handles (events (snd (initializeLogKernel example_cfg (fresh_world keyspace_fails)))) = []
   \<and> fst (initializeLogKernel example_cfg (fresh_world table_fails)) = Some (Error ''table unavailable'')
   \<and> open_sessions (snd (initializeLogKernel example_cfg (fresh_world table_fails))) = [0]
   \<and> closed_handles (events (snd (initializeLogKernel example_cfg (fresh_world table_fails)))) = []
   \<and> fst (initializeLogKernel example_cfg (fresh_world no_failures)) = None
   \<and> open_sessions (snd (initializeLogKernel example_cfg (fresh_world no_failures))) = []
   \<and> closed_handles (events (snd (initializeLogKernel example_cfg (fresh_world no_failures)))) = [0]"
  by (simp add: initializeLogKernel_def CreateSession_def Exec_def Close_def fresh_world_def
      keyspace_fails_def table_fails_def no_failures_def open_sessions_def Let_def)

text \<open>
  C9. \<open>Shutdown\<close> returns the nil error in every state. Without a session it changes
  nothing. With a session it makes one \<open>Close\<close> call, on that session, after which the
  session is not open, and it leaves every other session as it was.
\<close>

theorem Shutdown_never_fails:
  "fst (Shutdown e w) = None
   \<and> (client e = None \<longrightarrow> snd (Shutdown e w) = w)
   \<and> (\<forall>s. client e = Some s \<and> s < length (sessions w) \<longrightarrow>
        s \<notin> set (open_sessions (snd (Shutdown e w)))
        \<and> closed_handles (new_events w (snd (Shutdown e w))) = [s]
        \<and> length (sessions (snd (Shutdown e w))) = length (sessions w)
        \<and> (\<forall>t < length (sessions w). t \<noteq> s \<longrightarrow> sessions (snd (Shutdown e w)) ! t = sessions w ! t))"
  by (auto simp: Shutdown_def Close_def open_sessions_def new_events_def split: option.splits)

text \<open>
  \<open>Shutdown\<close> without a session, with the open session 0, and a second time after
  the session has been closed.
\<close>

theorem Shutdown_never_fails_witness:
  "client (example_exporter\<lparr>client := None\<rparr>) = None
   \<and> Shutdown (example_exporter\<lparr>client := None\<rparr>) example_world = (None, example_world)
   \<and> client example_exporter = Some 0 \<and> 0 < length (sessions example_world)
   \<and> open_sessions example_world = [0]
   \<and> fst (Shutdown example_exporter example_world) = None
   \<and> open_sessions (snd (Shutdown example_exporter example_world)) = []
   \<and> fst (Shutdown example_exporter (snd (Shutdown example_exporter example_world))) = None"
proof -
  have h: "client (example_exporter\<lparr>client := None\<rparr>) = None" "client example_exporter = Some 0"
    "0 < length (sessions example_world)" "open_sessions example_world = [0]"
    by (simp_all add: example_exporter_def example_world_def open_sessions_def)
  have o: "open_sessions (snd (Shutdown example_exporter example_world)) = []"
    by (simp add: Shutdown_def Close_def example_exporter_def example_world_def open_sessions_def)
  from Shutdown_never_fails [of "example_exporter\<lparr>client := None\<rparr>" example_world]
    Shutdown_never_fails [of example_exporter example_world]
    Shutdown_never_fails [of example_exporter "snd (Shutdown example_exporter example_world)"]
  show ?thesis
    using h o by (simp add: prod_eq_iff)
qed

end
